theory Spec2Isabelle
  imports Complex_Main "HOL-Library.Multiset"
begin

section \<open>Session statistics of src/App.jsx\<close>

text \<open>
  A shallow embedding of the statistics helpers of \<^verbatim>\<open>src/App.jsx\<close>:
  \<^verbatim>\<open>isSuccessResult\<close>, \<^verbatim>\<open>getConditionValue\<close>, \<^verbatim>\<open>computeNumericStats\<close>,
  \<^verbatim>\<open>buildConditionDistributions\<close> (lines 1667-1788), the rankings of the \<^verbatim>\<open>Stats\<close>
  page (lines 2259-2276) and \<^verbatim>\<open>processSessions\<close> (lines 2341-2493).

  Conventions of the embedding.
  \<^item> A JavaScript number is a \<open>jsnum\<close>: an exact rational, \<open>Infinity\<close>, \<open>-Infinity\<close> or
    \<open>NaN\<close>. Arithmetic on finite numbers is exact: the rounding of IEEE doubles and the
    sign of zero are not part of the model. Counts are natural numbers.
  \<^item> A string is a list of 8-bit characters; a non-ASCII character is its UTF-8 bytes.
  \<^item> A JavaScript \<open>Map\<close> is an association list in insertion order, as
    \<^verbatim>\<open>Array.from(map.values())\<close> enumerates it.
  \<^item> \<^verbatim>\<open>Array.prototype.sort\<close> with a comparator is the stable sort of ECMAScript 2019.
  \<^item> A thrown \<open>TypeError\<close> is the left injection of a sum.
  \<^item> The built-in \<^verbatim>\<open>parseFloat\<close> is a parameter of every function that reaches it.
\<close>

subsection \<open>Numbers and values\<close>

datatype jsnum = Fin rat | PosInf | NegInf | NaN

datatype jsval = JUndefined | JNull | JBool bool | JNum jsnum | JStr string | JObject

datatype js_error = TypeError

text \<open>\<^verbatim>\<open>a + b\<close>, \<^verbatim>\<open>a * b\<close> and \<^verbatim>\<open>a / b\<close> on numbers, with the special values of IEEE 754.\<close>

fun js_add :: "jsnum \<Rightarrow> jsnum \<Rightarrow> jsnum" where
  "js_add (Fin a) (Fin b) = Fin (a + b)"
| "js_add NaN _ = NaN"
| "js_add _ NaN = NaN"
| "js_add PosInf NegInf = NaN"
| "js_add NegInf PosInf = NaN"
| "js_add PosInf _ = PosInf"
| "js_add NegInf _ = NegInf"
| "js_add _ PosInf = PosInf"
| "js_add _ NegInf = NegInf"

definition js_sign :: "jsnum \<Rightarrow> int" where
  "js_sign x =
     (case x of
        Fin q \<Rightarrow> (if q < 0 then -1 else if q = 0 then 0 else 1)
      | PosInf \<Rightarrow> 1
      | NegInf \<Rightarrow> -1
      | NaN \<Rightarrow> 0)"

definition js_inf :: "int \<Rightarrow> jsnum" where
  "js_inf s = (if s = 0 then NaN else if 0 < s then PosInf else NegInf)"

fun js_mul :: "jsnum \<Rightarrow> jsnum \<Rightarrow> jsnum" where
  "js_mul (Fin a) (Fin b) = Fin (a * b)"
| "js_mul NaN _ = NaN"
| "js_mul _ NaN = NaN"
| "js_mul a b = js_inf (js_sign a * js_sign b)"

fun js_div :: "jsnum \<Rightarrow> jsnum \<Rightarrow> jsnum" where
  "js_div (Fin a) (Fin b) = (if b = 0 then js_inf (js_sign (Fin a)) else Fin (a / b))"
| "js_div NaN _ = NaN"
| "js_div _ NaN = NaN"
| "js_div (Fin a) _ = Fin 0"
| "js_div a (Fin b) = js_inf (js_sign a * (if b < 0 then -1 else 1))"
| "js_div _ _ = NaN"

text \<open>\<^verbatim>\<open>Math.floor\<close>, and \<^verbatim>\<open>Math.min\<close> and \<^verbatim>\<open>Math.max\<close> of two numbers.\<close>

fun js_floor :: "jsnum \<Rightarrow> jsnum" where
  "js_floor (Fin a) = Fin (of_int \<lfloor>a\<rfloor>)"
| "js_floor x = x"

fun js_min :: "jsnum \<Rightarrow> jsnum \<Rightarrow> jsnum" where
  "js_min (Fin a) (Fin b) = Fin (min a b)"
| "js_min NaN _ = NaN"
| "js_min _ NaN = NaN"
| "js_min NegInf _ = NegInf"
| "js_min _ NegInf = NegInf"
| "js_min PosInf b = b"
| "js_min a PosInf = a"

fun js_max :: "jsnum \<Rightarrow> jsnum \<Rightarrow> jsnum" where
  "js_max (Fin a) (Fin b) = Fin (max a b)"
| "js_max NaN _ = NaN"
| "js_max _ NaN = NaN"
| "js_max PosInf _ = PosInf"
| "js_max _ PosInf = PosInf"
| "js_max NegInf b = b"
| "js_max a NegInf = a"

text \<open>\<^verbatim>\<open>x || 1\<close> on a number: \<open>0\<close> and \<open>NaN\<close> are falsy.\<close>

definition js_or_one :: "jsnum \<Rightarrow> jsnum" where
  "js_or_one x = (if x = Fin 0 \<or> x = NaN then Fin 1 else x)"

text \<open>\<^verbatim>\<open>Math.round\<close> on a finite number: the nearest integer, a tie going up.\<close>

definition js_round :: "rat \<Rightarrow> int" where
  "js_round x = \<lfloor>x + 1 / 2\<rfloor>"

text \<open>
  \<^verbatim>\<open>x.toFixed(1)\<close>: the sign, then the integer nearest to ten times the magnitude (a tie
  going up), written in decimal with one digit after the point. Above a magnitude of
  \<open>10^21\<close> JavaScript prints a double in exponent notation; the model keeps the fixed
  notation there.
\<close>

definition digit_char :: "nat \<Rightarrow> char" where
  "digit_char d = ''0123456789'' ! (d mod 10)"

fun show_nat :: "nat \<Rightarrow> string" where
  "show_nat n = (if n < 10 then [digit_char n] else show_nat (n div 10) @ [digit_char (n mod 10)])"

definition toFixed1 :: "jsnum \<Rightarrow> string" where
  "toFixed1 x =
     (case x of
        NaN \<Rightarrow> ''NaN''
      | PosInf \<Rightarrow> ''Infinity''
      | NegInf \<Rightarrow> ''-Infinity''
      | Fin q \<Rightarrow>
          (let n = nat \<lfloor>\<bar>q\<bar> * 10 + 1 / 2\<rfloor>
           in (if q < 0 then ''-'' else []) @ show_nat (n div 10) @ ''.'' @ [digit_char (n mod 10)]))"

text \<open>
  \<^verbatim>\<open>arr.sort(cmp)\<close>: a stable insertion sort by the comparator (an element goes before the
  first element it does not compare greater than).
\<close>

fun js_insert :: "('a \<Rightarrow> 'a \<Rightarrow> rat) \<Rightarrow> 'a \<Rightarrow> 'a list \<Rightarrow> 'a list" where
  "js_insert cmp x [] = [x]"
| "js_insert cmp x (y # ys) = (if cmp x y \<le> 0 then x # y # ys else y # js_insert cmp x ys)"

definition js_sort :: "('a \<Rightarrow> 'a \<Rightarrow> rat) \<Rightarrow> 'a list \<Rightarrow> 'a list" where
  "js_sort cmp xs = foldr (js_insert cmp) xs []"

text \<open>
  A \<open>Map\<close> in insertion order. \<open>upsert k e0 f m\<close> is
  \<^verbatim>\<open>if (!m.has(k)) m.set(k, e0); f(m.get(k))\<close> with \<open>f\<close> mutating the entry in place.
\<close>

fun upsert :: "'k \<Rightarrow> 'e \<Rightarrow> ('e \<Rightarrow> 'e) \<Rightarrow> ('k \<times> 'e) list \<Rightarrow> ('k \<times> 'e) list" where
  "upsert k e0 f [] = [(k, f e0)]"
| "upsert k e0 f ((k', e) # m) = (if k' = k then (k', f e) # m else (k', e) # upsert k e0 f m)"

subsection \<open>Sessions\<close>

record dog =
  id' :: string
  name :: string
  dog_code :: string

record session_type =
  scent :: "string option"

text \<open>
  A row of \<open>training_sessions\<close> with its joined dog. \<open>None\<close> is a field that is
  \<open>null\<close> or missing.
\<close>

record session =
  result :: "string option"
  dog_id :: string
  dogs :: "dog option"
  conditions :: "(string \<rightharpoonup> jsval) option"
  type' :: "session_type option"

subsection \<open>isSuccessResult (lines 1670-1671)\<close>

definition ascii_upper :: string where
  "ascii_upper = ''ABCDEFGHIJKLMNOPQRSTUVWXYZ''"

definition ascii_lower :: string where
  "ascii_lower = ''abcdefghijklmnopqrstuvwxyz''"

text \<open>\<^verbatim>\<open>toLowerCase\<close> on the ASCII letters; every other character is kept.\<close>

definition lower_char :: "char \<Rightarrow> char" where
  "lower_char c = (case map_of (zip ascii_upper ascii_lower) c of Some d \<Rightarrow> d | None \<Rightarrow> c)"

definition toLowerCase :: "string \<Rightarrow> string" where
  "toLowerCase s = map lower_char s"

text \<open>\<^verbatim>\<open>String(result || "").toLowerCase() === "success"\<close>\<close>

definition isSuccessResult :: "string option \<Rightarrow> bool" where
  "isSuccessResult r = (toLowerCase (case r of None \<Rightarrow> [] | Some s \<Rightarrow> s) = ''success'')"

text \<open>
  The comparison of the specification: two texts are equal without regard to case when
  they have the same length and, position by position, the same character or the upper
  and lower case of one letter.
\<close>

definition same_letter :: "char \<Rightarrow> char \<Rightarrow> bool" where
  "same_letter c d =
     (c = d \<or> (c, d) \<in> set (zip ascii_upper ascii_lower) \<or> (d, c) \<in> set (zip ascii_upper ascii_lower))"

definition ci_equal :: "string \<Rightarrow> string \<Rightarrow> bool" where
  "ci_equal a b = list_all2 same_letter a b"

subsection \<open>getConditionValue (lines 1674-1679)\<close>

definition getConditionValue :: "(string \<Rightarrow> jsnum) \<Rightarrow> session \<Rightarrow> string \<Rightarrow> rat option" where
  "getConditionValue parseFloat s key =
     (let cond = (case conditions s of None \<Rightarrow> Map.empty | Some c \<Rightarrow> c);
          v = (case cond key of None \<Rightarrow> JUndefined | Some x \<Rightarrow> x);
          v' = (case v of JStr t \<Rightarrow> JNum (parseFloat t) | _ \<Rightarrow> v)
      in case v' of JNum (Fin q) \<Rightarrow> Some q | _ \<Rightarrow> None)"

subsection \<open>computeNumericStats (lines 1682-1710)\<close>

text \<open>The body of the \<^verbatim>\<open>forEach\<close> of lines 1700-1707 on \<open>(freq, mode, bestCount)\<close>.\<close>

definition mode_step :: "rat \<Rightarrow> (rat \<rightharpoonup> nat) \<times> rat \<times> nat \<Rightarrow> (rat \<rightharpoonup> nat) \<times> rat \<times> nat" where
  "mode_step v st =
     (case st of (freq, mode, bestCount) \<Rightarrow>
        (let c = (case freq v of None \<Rightarrow> 0 | Some k \<Rightarrow> k) + 1;
             freq' = freq(v \<mapsto> c)
         in if c > bestCount then (freq', v, c) else (freq', mode, bestCount)))"

record numericStats =
  mean :: rat
  median :: rat
  mode :: rat

definition computeNumericStats :: "rat list \<Rightarrow> numericStats option" where
  "computeNumericStats values =
     (if values = [] then None
      else
        (let sorted = js_sort (\<lambda>a b. a - b) values;
             n = length sorted;
             sum = foldl (\<lambda>acc v. acc + v) 0 sorted;
             mean' = sum / of_nat n;
             median' =
               (if n mod 2 = 1 then sorted ! ((n - 1) div 2)
                else (sorted ! (n div 2 - 1) + sorted ! (n div 2)) / 2);
             mode' = fst (snd (fold mode_step sorted (Map.empty, sorted ! 0, 0)))
         in Some \<lparr>mean = mean', median = median', mode = mode'\<rparr>))"

subsection \<open>buildConditionDistributions (lines 1713-1788)\<close>

record bin =
  bin_start :: jsnum
  bin_end :: jsnum
  bin_success :: nat
  bin_fail :: nat

record histBin =
  range' :: string
  count' :: nat

record distributions =
  binsSuccess :: "histBin list"
  binsFail :: "histBin list"
  statsSuccess :: "numericStats option"
  statsFail :: "numericStats option"

text \<open>\<^verbatim>\<open>Math.min(...vs)\<close> and \<^verbatim>\<open>Math.max(...vs)\<close> of a non-empty array of finite numbers.\<close>

definition min_of :: "rat list \<Rightarrow> rat" where
  "min_of vs = fold min (tl vs) (hd vs)"

definition max_of :: "rat list \<Rightarrow> rat" where
  "max_of vs = fold max (tl vs) (hd vs)"

definition effectiveBinCount :: "rat \<Rightarrow> rat \<Rightarrow> int \<Rightarrow> int" where
  "effectiveBinCount mn mx binCount = (if mn = mx then 1 else binCount)"

definition step_of :: "rat \<Rightarrow> rat \<Rightarrow> int \<Rightarrow> jsnum" where
  "step_of mn mx ebc =
     (if ebc = 1 then Fin 1 else js_or_one (js_div (Fin (mx - mn)) (Fin (of_int ebc))))"

text \<open>
  \<^verbatim>\<open>Array.from({ length: effectiveBinCount }, (_, i) => ...)\<close>: a length below zero gives
  the empty array.
\<close>

definition make_bins :: "rat \<Rightarrow> rat \<Rightarrow> int \<Rightarrow> jsnum \<Rightarrow> bin list" where
  "make_bins mn mx ebc step =
     map (\<lambda>i. \<lparr>bin_start = js_add (Fin mn) (js_mul (Fin (of_nat i)) step),
               bin_end = (if int i = ebc - 1 then Fin mx
                          else js_add (Fin mn) (js_mul (Fin (of_nat i + 1)) step)),
               bin_success = 0, bin_fail = 0\<rparr>)
       [0..<nat ebc]"

definition getIndex :: "rat \<Rightarrow> int \<Rightarrow> jsnum \<Rightarrow> rat \<Rightarrow> jsnum" where
  "getIndex mn ebc step v =
     (if ebc = 1 then Fin 0
      else
        (let idx = js_floor (js_div (Fin (v - mn)) step)
         in js_max (Fin 0) (js_min (Fin (of_int ebc - 1)) idx)))"

text \<open>
  \<^verbatim>\<open>bins[idx].success += 1\<close> (with \<open>f\<close> the increment): \<^verbatim>\<open>bins[idx]\<close> is \<open>undefined\<close>
  unless \<open>idx\<close> is an integer from \<open>0\<close> below the length, and reading a property of
  \<open>undefined\<close> throws.
\<close>

definition bump_bin :: "(bin \<Rightarrow> bin) \<Rightarrow> jsnum \<Rightarrow> bin list \<Rightarrow> js_error + bin list" where
  "bump_bin f idx bins =
     (case idx of
        Fin q \<Rightarrow>
          (if of_int \<lfloor>q\<rfloor> = q \<and> 0 \<le> q \<and> q < of_nat (length bins)
           then Inr (bins[nat \<lfloor>q\<rfloor> := f (bins ! nat \<lfloor>q\<rfloor>)])
           else Inl TypeError)
      | _ \<Rightarrow> Inl TypeError)"

fun count_into :: "(bin \<Rightarrow> bin) \<Rightarrow> (rat \<Rightarrow> jsnum) \<Rightarrow> rat list \<Rightarrow> bin list \<Rightarrow> js_error + bin list" where
  "count_into f gi [] bins = Inr bins"
| "count_into f gi (v # vs) bins =
     (case bump_bin f (gi v) bins of
        Inl e \<Rightarrow> Inl e
      | Inr bins' \<Rightarrow> count_into f gi vs bins')"

definition en_dash :: string where
  "en_dash = [CHR 0xE2, CHR 0x80, CHR 0x93]"

definition formatLabel :: "int \<Rightarrow> bin \<Rightarrow> string" where
  "formatLabel ebc b =
     (if ebc = 1 then toFixed1 (bin_start b)
      else toFixed1 (bin_start b) @ en_dash @ toFixed1 (bin_end b))"

text \<open>Lines 1726-1787: the function once the two arrays of values are filtered.\<close>

definition bin_values :: "rat list \<Rightarrow> rat list \<Rightarrow> int \<Rightarrow> js_error + distributions" where
  "bin_values successVals failVals binCount =
     (let allVals = successVals @ failVals
      in if allVals = []
         then Inr \<lparr>binsSuccess = [], binsFail = [], statsSuccess = None, statsFail = None\<rparr>
         else
           (let mn = min_of allVals;
                mx = max_of allVals;
                ebc = effectiveBinCount mn mx binCount;
                step = step_of mn mx ebc;
                bins = make_bins mn mx ebc step
            in case count_into (\<lambda>b. b\<lparr>bin_success := bin_success b + 1\<rparr>)
                      (getIndex mn ebc step) successVals bins of
                 Inl e \<Rightarrow> Inl e
               | Inr bins1 \<Rightarrow>
                   (case count_into (\<lambda>b. b\<lparr>bin_fail := bin_fail b + 1\<rparr>)
                           (getIndex mn ebc step) failVals bins1 of
                      Inl e \<Rightarrow> Inl e
                    | Inr bins2 \<Rightarrow>
                        Inr \<lparr>binsSuccess =
                               map (\<lambda>b. \<lparr>range' = formatLabel ebc b, count' = bin_success b\<rparr>) bins2,
                             binsFail =
                               map (\<lambda>b. \<lparr>range' = formatLabel ebc b, count' = bin_fail b\<rparr>) bins2,
                             statsSuccess = computeNumericStats successVals,
                             statsFail = computeNumericStats failVals\<rparr>)))"

text \<open>Lines 1719-1724: \<^verbatim>\<open>.map((s) => getConditionValue(s, key)).filter((v) => v !== null)\<close>\<close>

definition condition_values :: "(string \<Rightarrow> jsnum) \<Rightarrow> session list \<Rightarrow> string \<Rightarrow> rat list" where
  "condition_values parseFloat sessions key =
     map the (filter (\<lambda>v. v \<noteq> None) (map (\<lambda>s. getConditionValue parseFloat s key) sessions))"

definition buildConditionDistributions ::
  "(string \<Rightarrow> jsnum) \<Rightarrow> session list \<Rightarrow> session list \<Rightarrow> string \<Rightarrow> int \<Rightarrow> js_error + distributions" where
  "buildConditionDistributions parseFloat successSessions failSessions key binCount =
     bin_values (condition_values parseFloat successSessions key)
       (condition_values parseFloat failSessions key) binCount"

text \<open>The default of the parameter \<^verbatim>\<open>binCount = 6\<close>, the only value the page passes.\<close>

definition default_binCount :: int where
  "default_binCount = 6"

subsection \<open>processSessions (lines 2341-2493)\<close>

record counts =
  total' :: nat
  success :: nat
  fail :: nat

record dogEntry = counts +
  dogId :: string
  name' :: string
  code :: string

record scentEntry = counts +
  scent' :: string

record condEntry = counts +
  value' :: rat

record dogStat = dogEntry +
  successRate :: rat
  failRate :: rat

record scentStat = scentEntry +
  successRate_s :: int

record seriesPoint = condEntry +
  successRate_c :: int

record kpis =
  kpi_totalSessions :: nat
  kpi_totalDogs :: nat
  kpi_successRate :: int
  kpi_totalFails :: nat

record series =
  temp :: "seriesPoint list"
  hum :: "seriesPoint list"
  press :: "seriesPoint list"
  wind :: "seriesPoint list"

text \<open>What the four state setters receive.\<close>

record stats_view =
  globalKpis :: kpis
  perDogStats :: "dogStat list"
  scentStats :: "scentStat list"
  conditionSeries :: series

text \<open>The variables the \<^verbatim>\<open>forEach\<close> of lines 2373-2437 updates.\<close>

record loop_state =
  perDogMap :: "(string \<times> dogEntry) list"
  scentMap :: "(string \<times> scentEntry) list"
  condMaps :: "string \<Rightarrow> (rat \<times> condEntry) list"
  totalSessions :: nat
  totalSuccess :: nat
  totalFail :: nat

text \<open>\<^verbatim>\<open>e.total += 1; if (isSuccess) e.success += 1; else e.fail += 1;\<close>\<close>

definition tally :: "bool \<Rightarrow> 'a counts_scheme \<Rightarrow> 'a counts_scheme" where
  "tally isSuccess e =
     (if isSuccess then e\<lparr>total' := total' e + 1, success := success e + 1\<rparr>
      else e\<lparr>total' := total' e + 1, fail := fail e + 1\<rparr>)"

text \<open>Lines 2374-2375.\<close>

definition is_success :: "session \<Rightarrow> bool" where
  "is_success s = (toLowerCase (case result s of None \<Rightarrow> [] | Some r \<Rightarrow> r) = ''success'')"

text \<open>Lines 2377-2380: \<^verbatim>\<open>a || b\<close> takes \<open>b\<close> when \<open>a\<close> is missing or the empty string.\<close>

definition dog_key :: "session \<Rightarrow> string" where
  "dog_key s = (case dogs s of None \<Rightarrow> dog_id s | Some d \<Rightarrow> if id' d = [] then dog_id s else id' d)"

definition dog_name :: "session \<Rightarrow> string" where
  "dog_name s =
     (case dogs s of
        None \<Rightarrow> ''Perro sin nombre''
      | Some d \<Rightarrow> if name d = [] then ''Perro sin nombre'' else name d)"

definition dog_code_of :: "session \<Rightarrow> string" where
  "dog_code_of s = (case dogs s of None \<Rightarrow> [] | Some d \<Rightarrow> dog_code d)"

text \<open>Lines 2401-2402: \<^verbatim>\<open>String((s.type || {}).scent || "Desconocido")\<close>\<close>

definition scent_label :: "session \<Rightarrow> string" where
  "scent_label s =
     (case type' s of
        None \<Rightarrow> ''Desconocido''
      | Some t \<Rightarrow>
          (case scent t of
             None \<Rightarrow> ''Desconocido''
           | Some x \<Rightarrow> if x = [] then ''Desconocido'' else x))"

text \<open>Lines 2416-2420: the value of a condition, or \<open>None\<close> where the callback returns early.\<close>

definition cond_value :: "(string \<Rightarrow> jsnum) \<Rightarrow> session \<Rightarrow> string \<Rightarrow> rat option" where
  "cond_value parseFloat s key =
     (let cond = (case conditions s of None \<Rightarrow> Map.empty | Some c \<Rightarrow> c);
          v = (case cond key of None \<Rightarrow> JUndefined | Some x \<Rightarrow> x);
          v' = (case v of JStr t \<Rightarrow> JNum (parseFloat t) | _ \<Rightarrow> v)
      in case v' of JNum (Fin q) \<Rightarrow> Some q | _ \<Rightarrow> None)"

definition condition_keys :: "string list" where
  "condition_keys = [''temp'', ''hum'', ''press'', ''wind'']"

text \<open>Lines 2417-2436: the callback of the inner \<^verbatim>\<open>forEach\<close> over the four keys.\<close>

definition cond_step ::
  "(string \<Rightarrow> jsnum) \<Rightarrow> session \<Rightarrow> string \<Rightarrow> (string \<Rightarrow> (rat \<times> condEntry) list)
     \<Rightarrow> (string \<Rightarrow> (rat \<times> condEntry) list)" where
  "cond_step parseFloat s key maps =
     (case cond_value parseFloat s key of
        None \<Rightarrow> maps
      | Some v \<Rightarrow>
          maps(key := upsert v \<lparr>total' = 0, success = 0, fail = 0, value' = v\<rparr>
                        (tally (is_success s)) (maps key)))"

text \<open>Lines 2373-2437: the callback of the outer \<^verbatim>\<open>forEach\<close>.\<close>

definition session_step :: "(string \<Rightarrow> jsnum) \<Rightarrow> session \<Rightarrow> loop_state \<Rightarrow> loop_state" where
  "session_step parseFloat s st =
     \<lparr>perDogMap =
        upsert (dog_key s)
          \<lparr>total' = 0, success = 0, fail = 0,
           dogId = dog_key s, name' = dog_name s, code = dog_code_of s\<rparr>
          (tally (is_success s)) (perDogMap st),
      scentMap =
        upsert (scent_label s)
          \<lparr>total' = 0, success = 0, fail = 0, scent' = scent_label s\<rparr>
          (tally (is_success s)) (scentMap st),
      condMaps = fold (cond_step parseFloat s) condition_keys (condMaps st),
      totalSessions = totalSessions st + 1,
      totalSuccess = (if is_success s then totalSuccess st + 1 else totalSuccess st),
      totalFail = (if is_success s then totalFail st else totalFail st + 1)\<rparr>"

definition initial_state :: loop_state where
  "initial_state =
     \<lparr>perDogMap = [], scentMap = [], condMaps = (\<lambda>key. []),
      totalSessions = 0, totalSuccess = 0, totalFail = 0\<rparr>"

definition run_sessions :: "(string \<Rightarrow> jsnum) \<Rightarrow> session list \<Rightarrow> loop_state" where
  "run_sessions parseFloat sessions = fold (session_step parseFloat) sessions initial_state"

text \<open>\<^verbatim>\<open>t ? Math.round((s / t) * 100) : 0\<close>\<close>

definition rate_percent :: "nat \<Rightarrow> nat \<Rightarrow> int" where
  "rate_percent s t = (if t = 0 then 0 else js_round ((of_nat s / of_nat t) * 100))"

text \<open>Lines 2448-2460.\<close>

definition dog_stat :: "dogEntry \<Rightarrow> dogStat" where
  "dog_stat d =
     \<lparr>total' = total' d, success = success d, fail = fail d,
      dogId = dogId d, name' = name' d, code = code d,
      successRate = (if total' d = 0 then 0 else (of_nat (success d) / of_nat (total' d)) * 100),
      failRate = (if total' d = 0 then 0 else (of_nat (fail d) / of_nat (total' d)) * 100)\<rparr>"

text \<open>Lines 2463-2470.\<close>

definition scent_stat :: "scentEntry \<Rightarrow> scentStat" where
  "scent_stat e =
     \<lparr>total' = total' e, success = success e, fail = fail e, scent' = scent' e,
      successRate_s = rate_percent (success e) (total' e)\<rparr>"

text \<open>Lines 2473-2485.\<close>

definition series_point :: "condEntry \<Rightarrow> seriesPoint" where
  "series_point e =
     \<lparr>total' = total' e, success = success e, fail = fail e, value' = value' e,
      successRate_c = rate_percent (success e) (total' e)\<rparr>"

definition buildSeries :: "(rat \<times> condEntry) list \<Rightarrow> seriesPoint list" where
  "buildSeries m = js_sort (\<lambda>a b. value' a - value' b) (map series_point (map snd m))"

definition processSessions :: "(string \<Rightarrow> jsnum) \<Rightarrow> session list \<Rightarrow> stats_view" where
  "processSessions parseFloat sessions =
     (if sessions = []
      then \<lparr>globalKpis =
              \<lparr>kpi_totalSessions = 0, kpi_totalDogs = 0, kpi_successRate = 0, kpi_totalFails = 0\<rparr>,
            perDogStats = [], scentStats = [],
            conditionSeries = \<lparr>temp = [], hum = [], press = [], wind = []\<rparr>\<rparr>
      else
        (let st = run_sessions parseFloat sessions
         in \<lparr>globalKpis =
               \<lparr>kpi_totalSessions = totalSessions st,
                kpi_totalDogs = length (perDogMap st),
                kpi_successRate = rate_percent (totalSuccess st) (totalSessions st),
                kpi_totalFails = totalFail st\<rparr>,
             perDogStats = map dog_stat (map snd (perDogMap st)),
             scentStats = map scent_stat (map snd (scentMap st)),
             conditionSeries =
               \<lparr>temp = buildSeries (condMaps st ''temp''),
                hum = buildSeries (condMaps st ''hum''),
                press = buildSeries (condMaps st ''press''),
                wind = buildSeries (condMaps st ''wind'')\<rparr>\<rparr>))"

subsection \<open>The rankings of the Stats page (lines 2259-2276)\<close>

text \<open>
  \<open>dogTableMode\<close> is \<open>''absolute''\<close> or \<open>''rate''\<close>; the sort keys are the properties
  \<open>success\<close> or \<open>successRate\<close>, and \<open>fail\<close> or \<open>failRate\<close>, read from an entry.
\<close>

definition sortKeySuccess :: "string \<Rightarrow> dogStat \<Rightarrow> rat" where
  "sortKeySuccess dogTableMode d =
     (if dogTableMode = ''absolute'' then of_nat (success d) else successRate d)"

definition sortKeyFail :: "string \<Rightarrow> dogStat \<Rightarrow> rat" where
  "sortKeyFail dogTableMode d =
     (if dogTableMode = ''absolute'' then of_nat (fail d) else failRate d)"

definition successRanking :: "string \<Rightarrow> dogStat list \<Rightarrow> dogStat list" where
  "successRanking dogTableMode ds =
     (if ds = [] then []
      else js_sort (\<lambda>a b. sortKeySuccess dogTableMode b - sortKeySuccess dogTableMode a) ds)"

definition failRanking :: "string \<Rightarrow> dogStat list \<Rightarrow> dogStat list" where
  "failRanking dogTableMode ds =
     (if ds = [] then []
      else js_sort (\<lambda>a b. sortKeyFail dogTableMode b - sortKeyFail dogTableMode a) ds)"

subsection \<open>Auxiliary definitions of the proofs\<close>

text \<open>
  The invariant of the loop of lines 1700-1707 after the prefix \<open>pre\<close> of the sorted
  values: \<open>freq\<close> holds the occurrence counts, \<open>bestCount\<close> is the highest of them, and
  \<open>mode\<close> is the least value that has it.
\<close>

definition mode_inv :: "rat list \<Rightarrow> (rat \<rightharpoonup> nat) \<times> rat \<times> nat \<Rightarrow> bool" where
  "mode_inv pre st =
     (case st of (freq, m, b) \<Rightarrow>
        (\<forall>v. freq v = (if v \<in> set pre then Some (count_list pre v) else None))
        \<and> (\<forall>v. count_list pre v \<le> b)
        \<and> (pre = [] \<longrightarrow> b = 0)
        \<and> (pre \<noteq> [] \<longrightarrow>
             m \<in> set pre \<and> count_list pre m = b \<and> (\<forall>v. count_list pre v = b \<longrightarrow> m \<le> v)))"

text \<open>
  One pass of grouping, as the three maps of lines 2386-2436 do it: a session with no key
  is skipped, another is tallied in the entry of its key, which is created with the counts
  zero at the first session that has the key.
\<close>

definition group_step ::
  "('s \<Rightarrow> 'k option) \<Rightarrow> ('k \<Rightarrow> 'a counts_scheme) \<Rightarrow> ('s \<Rightarrow> bool) \<Rightarrow> 's
     \<Rightarrow> ('k \<times> 'a counts_scheme) list \<Rightarrow> ('k \<times> 'a counts_scheme) list" where
  "group_step kf e0 p s m =
     (case kf s of None \<Rightarrow> m | Some k \<Rightarrow> upsert k (e0 k) (tally (p s)) m)"


definition new_cond :: "rat \<Rightarrow> condEntry" where
  "new_cond v = \<lparr>total' = 0, success = 0, fail = 0, value' = v\<rparr>"

text \<open>
  Line 2289-2290: \<^verbatim>\<open>conditionSeries[selectedCondition] || []\<close>, the series the page
  charts for a key.
\<close>

definition currentConditionSeries :: "string \<Rightarrow> series \<Rightarrow> seriesPoint list" where
  "currentConditionSeries key cs =
     (if key = ''temp'' then temp cs
      else if key = ''hum'' then hum cs
      else if key = ''press'' then press cs
      else if key = ''wind'' then wind cs
      else [])"

text \<open>The entry of a session's conditions for a key, \<open>undefined\<close> when there is none.\<close>

definition condition_entry :: "session \<Rightarrow> string \<Rightarrow> jsval" where
  "condition_entry s key =
     (case conditions s of
        None \<Rightarrow> JUndefined
      | Some c \<Rightarrow> (case c key of None \<Rightarrow> JUndefined | Some x \<Rightarrow> x))"







section \<open>Properties\<close>

subsection \<open>Sorting\<close>

lemma js_insert_insort_key: "js_insert (\<lambda>a b. f a - f b) x ys = insort_key f x ys"
  by (induction ys) auto

lemma js_sort_sort_key: "js_sort (\<lambda>a b. f a - f b) xs = sort_key f xs"
  by (induction xs) (simp_all add: js_sort_def js_insert_insort_key)

lemma js_sort_ascending: "js_sort (\<lambda>a b. a - b) xs = sort xs"
  using js_sort_sort_key [of "\<lambda>x. x" xs] by simp

lemma js_sort_descending: "js_sort (\<lambda>a b. f b - f a) xs = sort_key (\<lambda>x. - f x) xs"
  using js_sort_sort_key [of "\<lambda>x. - f x" xs] by simp

subsection \<open>The record classifier\<close>

lemma same_letter_s: "same_letter c (CHR ''s'') = (c = CHR ''s'' \<or> c = CHR ''S'')"
  and same_letter_u: "same_letter c (CHR ''u'') = (c = CHR ''u'' \<or> c = CHR ''U'')"
  and same_letter_c: "same_letter c (CHR ''c'') = (c = CHR ''c'' \<or> c = CHR ''C'')"
  and same_letter_e: "same_letter c (CHR ''e'') = (c = CHR ''e'' \<or> c = CHR ''E'')"
  by (simp_all add: same_letter_def ascii_upper_def ascii_lower_def)

lemma lower_char_s: "(lower_char c = CHR ''s'') = (c = CHR ''s'' \<or> c = CHR ''S'')"
  and lower_char_u: "(lower_char c = CHR ''u'') = (c = CHR ''u'' \<or> c = CHR ''U'')"
  and lower_char_c: "(lower_char c = CHR ''c'') = (c = CHR ''c'' \<or> c = CHR ''C'')"
  and lower_char_e: "(lower_char c = CHR ''e'') = (c = CHR ''e'' \<or> c = CHR ''E'')"
  by (simp_all add: lower_char_def ascii_upper_def ascii_lower_def split: if_split)

lemma toLowerCase_success: "(toLowerCase s = ''success'') = ci_equal s ''success''"
  by (simp add: toLowerCase_def ci_equal_def map_eq_Cons_conv list_all2_Cons2
      lower_char_s lower_char_u lower_char_c lower_char_e
      same_letter_s same_letter_u same_letter_c same_letter_e)

text \<open>
  C4. The classifier answers success exactly for the texts that equal \<open>success\<close> without
  regard to case: \<open>SUCCESS\<close> and \<open>Success\<close> are successes; \<open>success\<close> followed by a
  space, the empty text and a missing value are failures. The classifier is a total
  function to the booleans, so it has an answer for every value.
\<close>

theorem isSuccessResult_case_insensitive:
  "(isSuccessResult r \<longleftrightarrow> (\<exists>s. r = Some s \<and> ci_equal s ''success''))
   \<and> isSuccessResult (Some ''SUCCESS'') \<and> isSuccessResult (Some ''Success'')
   \<and> \<not> isSuccessResult (Some ''success '') \<and> \<not> isSuccessResult (Some [])
   \<and> \<not> isSuccessResult None"
proof -
  have a: "isSuccessResult r \<longleftrightarrow> (\<exists>s. r = Some s \<and> ci_equal s ''success'')"
  proof (cases r)
    case None
    then show ?thesis by (simp add: isSuccessResult_def toLowerCase_def)
  next
    case (Some s)
    then show ?thesis by (simp add: isSuccessResult_def toLowerCase_success)
  qed
  have b: "isSuccessResult (Some ''SUCCESS'')" "isSuccessResult (Some ''Success'')"
    "\<not> isSuccessResult (Some ''success '')" "\<not> isSuccessResult (Some [])"
    "\<not> isSuccessResult None"
    by (simp_all add: isSuccessResult_def toLowerCase_def lower_char_def
        ascii_upper_def ascii_lower_def)
  from a b show ?thesis by blast
qed

theorem isSuccessResult_witness:
  "isSuccessResult (Some ''sUcCeSs'') \<and> ci_equal ''sUcCeSs'' ''success''"
proof -
  have "ci_equal ''sUcCeSs'' ''success''"
    by (simp add: ci_equal_def same_letter_def ascii_upper_def ascii_lower_def)
  with isSuccessResult_case_insensitive [of "Some ''sUcCeSs''"] show ?thesis by blast
qed

subsection \<open>The numeric summary: mean and median\<close>






subsection \<open>Empty inputs\<close>

lemma condition_values_absent:
  "condition_values parseFloat
     (filter (\<lambda>s. getConditionValue parseFloat s key = None) sessions) key = []"
  by (induction sessions) (simp_all add: condition_values_def)

text \<open>
  C6, as the code has it. The numeric summary of an empty collection is no summary, and the
  histogram binner given two cohorts with no value (directly, or because every session
  of both has the condition absent) reports empty bin sequences and no summary, for every
  bin count. The aggregator of the statistics page, given no session, reports zero
  counts and a zero success rate, with empty per-dog, per-scent and per-condition sequences.
\<close>

theorem empty_input_results:
  "computeNumericStats [] = None
   \<and> bin_values [] [] binCount =
       Inr \<lparr>binsSuccess = [], binsFail = [], statsSuccess = None, statsFail = None\<rparr>
   \<and> buildConditionDistributions parseFloat
         (filter (\<lambda>s. getConditionValue parseFloat s key = None) successSessions)
         (filter (\<lambda>s. getConditionValue parseFloat s key = None) failSessions) key binCount =
       Inr \<lparr>binsSuccess = [], binsFail = [], statsSuccess = None, statsFail = None\<rparr>
   \<and> processSessions parseFloat [] =
       \<lparr>globalKpis =
          \<lparr>kpi_totalSessions = 0, kpi_totalDogs = 0, kpi_successRate = 0, kpi_totalFails = 0\<rparr>,
        perDogStats = [], scentStats = [],
        conditionSeries = \<lparr>temp = [], hum = [], press = [], wind = []\<rparr>\<rparr>"
  by (simp add: computeNumericStats_def bin_values_def buildConditionDistributions_def
      condition_values_absent processSessions_def)

theorem empty_input_results_witness:
  "bin_values [] [] 6 =
     Inr \<lparr>binsSuccess = [], binsFail = [], statsSuccess = None, statsFail = None\<rparr>
   \<and> buildConditionDistributions (\<lambda>t. NaN)
        [\<lparr>result = Some ''success'', dog_id = ''d1'', dogs = None,
          conditions = Some [''temp'' \<mapsto> JStr ''not-a-number''], type' = None\<rparr>]
        [] ''temp'' 6 =
     Inr \<lparr>binsSuccess = [], binsFail = [], statsSuccess = None, statsFail = None\<rparr>"
proof -
  let ?s = "\<lparr>result = Some ''success'', dog_id = ''d1'', dogs = None,
          conditions = Some [''temp'' \<mapsto> JStr ''not-a-number''], type' = None\<rparr>"
  have "getConditionValue (\<lambda>t. NaN) ?s ''temp'' = None"
    by (simp add: getConditionValue_def)
  then show ?thesis
    using empty_input_results [of 6 "\<lambda>t. NaN" "''temp''" "[?s]" "[]"] by simp
qed

text \<open>
  C6, as stated, fails for the aggregator of the statistics page: with no session it
  reports the counts 0 and the success rate 0, not an unavailable result.
\<close>

theorem processSessions_empty_counterexample:
  "globalKpis (processSessions (\<lambda>t. NaN) []) =
     \<lparr>kpi_totalSessions = 0, kpi_totalDogs = 0, kpi_successRate = 0, kpi_totalFails = 0\<rparr>"
  by (simp add: processSessions_def)


subsection \<open>The numeric summary: mode\<close>

lemma mode_step_inv:
  assumes inv: "mode_inv pre st" and le: "\<forall>u\<in>set pre. u \<le> x"
  shows "mode_inv (pre @ [x]) (mode_step x st)"
proof -
  obtain freq m b where st: "st = (freq, m, b)" by (cases st)
  from inv st have fr: "\<And>v. freq v = (if v \<in> set pre then Some (count_list pre v) else None)"
    and ub: "\<And>v. count_list pre v \<le> b"
    and emp: "pre = [] \<Longrightarrow> b = 0"
    and md: "pre \<noteq> [] \<Longrightarrow> m \<in> set pre \<and> count_list pre m = b
               \<and> (\<forall>v. count_list pre v = b \<longrightarrow> m \<le> v)"
    by (simp_all add: mode_inv_def)
  define c where "c = Suc (count_list pre x)"
  have cx: "(case freq x of None \<Rightarrow> 0 | Some k \<Rightarrow> k) = count_list pre x"
    by (simp add: fr)
  have fr': "\<And>v. (freq(x \<mapsto> c)) v
      = (if v \<in> set (pre @ [x]) then Some (count_list (pre @ [x]) v) else None)"
    by (simp add: fr c_def)
  show ?thesis
  proof (cases "c > b")
    case True
    have s: "mode_step x st = (freq(x \<mapsto> c), x, c)"
      using True by (simp add: mode_step_def st cx Let_def c_def)
    have "\<And>v. count_list (pre @ [x]) v \<le> c"
    proof -
      fix v
      from ub [of v] True have "count_list pre v \<le> c" by simp
      then show "count_list (pre @ [x]) v \<le> c" by (simp add: c_def)
    qed
    moreover have "\<And>v. count_list (pre @ [x]) v = c \<Longrightarrow> x \<le> v"
    proof -
      fix v assume h: "count_list (pre @ [x]) v = c"
      show "x \<le> v"
      proof (cases "v = x")
        case True then show ?thesis by simp
      next
        case False
        with h have "count_list pre v = c" by simp
        with ub [of v] \<open>c > b\<close> show ?thesis by simp
      qed
    qed
    ultimately show ?thesis
      unfolding s mode_inv_def using fr' by (simp add: c_def)
  next
    case False
    then have cb: "c \<le> b" by simp
    then have ne: "pre \<noteq> []" using emp by (auto simp: c_def)
    note md' = md [OF ne]
    have s: "mode_step x st = (freq(x \<mapsto> c), m, b)"
      using False by (simp add: mode_step_def st cx Let_def c_def)
    have mx: "m \<noteq> x"
    proof
      assume "m = x"
      with md' have "count_list pre x = b" by simp
      with cb show False by (simp add: c_def)
    qed
    have "\<And>v. count_list (pre @ [x]) v \<le> b"
      using ub cb by (auto simp: c_def)
    moreover have "count_list (pre @ [x]) m = b"
      using md' mx by simp
    moreover have "\<And>v. count_list (pre @ [x]) v = b \<Longrightarrow> m \<le> v"
    proof -
      fix v assume h: "count_list (pre @ [x]) v = b"
      show "m \<le> v"
      proof (cases "v = x")
        case True
        with md' le show ?thesis by simp
      next
        case False
        with h md' show ?thesis by simp
      qed
    qed
    ultimately show ?thesis
      unfolding s mode_inv_def using fr' md' by simp
  qed
qed

lemma mode_fold_inv:
  "sorted (pre @ xs) \<Longrightarrow> mode_inv pre st \<Longrightarrow> mode_inv (pre @ xs) (fold mode_step xs st)"
proof (induction xs arbitrary: pre st)
  case Nil
  then show ?case by simp
next
  case (Cons x xs)
  from Cons.prems(1) have le: "\<forall>u\<in>set pre. u \<le> x"
    by (simp add: sorted_append)
  have "mode_inv ((pre @ [x]) @ xs) (fold mode_step xs (mode_step x st))"
    using Cons.prems(1) by (intro Cons.IH mode_step_inv [OF Cons.prems(2) le]) simp
  then show ?case by simp
qed

lemma count_list_sort: "count_list (sort xs) v = count_list xs (v :: rat)"
proof -
  have "count (mset (sort xs)) v = count (mset xs) v" by simp
  then show ?thesis by (simp only: count_mset)
qed

text \<open>
  C3. For a non-empty collection the mode of the summary is one of the values, no value
  occurs more often, and every value that occurs as often is at least the mode: the mode
  is the smallest of the most frequent values. The summary of 1, 1, 2, 2 has mode 1.
\<close>

theorem computeNumericStats_mode:
  "values \<noteq> [] \<Longrightarrow>
     (\<exists>st. computeNumericStats values = Some st
        \<and> mode st \<in> set values
        \<and> (\<forall>v. count_list values v \<le> count_list values (mode st))
        \<and> (\<forall>v. count_list values v = count_list values (mode st) \<longrightarrow> mode st \<le> v))"
proof -
  assume ne: "values \<noteq> []"
  define r where "r = fold mode_step (sort values) (Map.empty, sort values ! 0, 0)"
  have "mode_inv [] (Map.empty, sort values ! 0, 0)"
    by (simp add: mode_inv_def)
  then have "mode_inv ([] @ sort values) r"
    unfolding r_def by (intro mode_fold_inv) simp_all
  moreover obtain freq m b where r: "r = (freq, m, b)" by (cases r)
  moreover have "sort values \<noteq> []" using ne by (metis length_sort length_0_conv)
  ultimately have "m \<in> set values"
    and "\<And>v. count_list values v \<le> b" and "count_list values m = b"
    and "\<And>v. count_list values v = b \<Longrightarrow> m \<le> v"
    by (simp_all add: mode_inv_def count_list_sort)
  moreover have "computeNumericStats values \<noteq> None \<and> mode (the (computeNumericStats values)) = m"
    using ne r by (simp add: computeNumericStats_def Let_def js_sort_ascending r_def [symmetric])
  ultimately show ?thesis by auto
qed

theorem computeNumericStats_mode_witness:
  "[1, 1, 2, 2] \<noteq> ([] :: rat list)
   \<and> (\<exists>st. computeNumericStats [1, 1, 2, 2] = Some st \<and> mode st = 1)"
proof -
  obtain st where st: "computeNumericStats [1, 1, 2, 2] = Some st"
    and mem: "mode st \<in> set [1, 1, 2, 2]"
    and tie: "\<forall>v. count_list [1, 1, 2, 2] v = count_list [1, 1, 2, 2] (mode st) \<longrightarrow> mode st \<le> v"
    using computeNumericStats_mode [of "[1, 1, 2, 2]"] by auto
  from mem have "mode st = 1 \<or> mode st = 2" by auto
  then have "count_list [1, 1, 2, 2 :: rat] 1 = count_list [1, 1, 2, 2] (mode st)" by auto
  with tie have "mode st \<le> 1" by blast
  with \<open>mode st = 1 \<or> mode st = 2\<close> have "mode st = 1" by auto
  with st show ?thesis by simp
qed

subsection \<open>The rankings\<close>

lemma ranking_stable:
  "filter (\<lambda>d. f d = k) (js_sort (\<lambda>a b. f b - f a) ds) = filter (\<lambda>d. f d = (k :: rat)) ds"
proof -
  have "(\<lambda>d. f d = k) = (\<lambda>d. - f d = - k)" by auto
  then show ?thesis
    by (simp only: js_sort_descending sort_key_stable)
qed

text \<open>
  C9. In the success ranking and in the fail ranking, under either table mode, the dogs
  that have a given value of the sort key stand in the order they have in the input: the
  ranking is stable. Each ranking is a rearrangement of the input in descending order
  of the key.
\<close>

theorem rankings_stable:
  "filter (\<lambda>d. sortKeySuccess dogTableMode d = k) (successRanking dogTableMode ds)
     = filter (\<lambda>d. sortKeySuccess dogTableMode d = k) ds
   \<and> filter (\<lambda>d. sortKeyFail dogTableMode d = k) (failRanking dogTableMode ds)
     = filter (\<lambda>d. sortKeyFail dogTableMode d = k) ds
   \<and> mset (successRanking dogTableMode ds) = mset ds
   \<and> mset (failRanking dogTableMode ds) = mset ds
   \<and> sorted (map (\<lambda>d. - sortKeySuccess dogTableMode d) (successRanking dogTableMode ds))
   \<and> sorted (map (\<lambda>d. - sortKeyFail dogTableMode d) (failRanking dogTableMode ds))"
proof -
  have "filter (\<lambda>d. sortKeySuccess dogTableMode d = k) (successRanking dogTableMode ds)
     = filter (\<lambda>d. sortKeySuccess dogTableMode d = k) ds"
    and "filter (\<lambda>d. sortKeyFail dogTableMode d = k) (failRanking dogTableMode ds)
     = filter (\<lambda>d. sortKeyFail dogTableMode d = k) ds"
    by (simp_all add: successRanking_def failRanking_def ranking_stable)
  moreover
  have "mset (successRanking dogTableMode ds) = mset ds"
    and "mset (failRanking dogTableMode ds) = mset ds"
    and "sorted (map (\<lambda>d. - sortKeySuccess dogTableMode d) (successRanking dogTableMode ds))"
    and "sorted (map (\<lambda>d. - sortKeyFail dogTableMode d) (failRanking dogTableMode ds))"
    by (simp_all add: successRanking_def failRanking_def js_sort_descending)
  ultimately show ?thesis by simp
qed

theorem rankings_stable_witness:
  "successRanking ''absolute''
     [\<lparr>total' = 4, success = 2, fail = 2, dogId = ''a'', name' = ''Ada'', code = ''K1'',
       successRate = 50, failRate = 50\<rparr>,
      \<lparr>total' = 3, success = 3, fail = 0, dogId = ''b'', name' = ''Bo'', code = ''K2'',
       successRate = 100, failRate = 0\<rparr>,
      \<lparr>total' = 2, success = 2, fail = 0, dogId = ''c'', name' = ''Cy'', code = ''K3'',
       successRate = 100, failRate = 0\<rparr>]
   = [\<lparr>total' = 3, success = 3, fail = 0, dogId = ''b'', name' = ''Bo'', code = ''K2'',
       successRate = 100, failRate = 0\<rparr>,
      \<lparr>total' = 4, success = 2, fail = 2, dogId = ''a'', name' = ''Ada'', code = ''K1'',
       successRate = 50, failRate = 50\<rparr>,
      \<lparr>total' = 2, success = 2, fail = 0, dogId = ''c'', name' = ''Cy'', code = ''K3'',
       successRate = 100, failRate = 0\<rparr>]"
proof -
  let ?a = "\<lparr>total' = 4, success = 2, fail = 2, dogId = ''a'', name' = ''Ada'', code = ''K1'',
       successRate = 50, failRate = 50 :: rat\<rparr>"
  let ?b = "\<lparr>total' = 3, success = 3, fail = 0, dogId = ''b'', name' = ''Bo'', code = ''K2'',
       successRate = 100, failRate = 0 :: rat\<rparr>"
  let ?c = "\<lparr>total' = 2, success = 2, fail = 0, dogId = ''c'', name' = ''Cy'', code = ''K3'',
       successRate = 100, failRate = 0 :: rat\<rparr>"
  have "filter (\<lambda>d. sortKeySuccess ''absolute'' d = 2) (successRanking ''absolute'' [?a, ?b, ?c])
      = [?a, ?c]"
    using rankings_stable [of "''absolute''" 2 "[?a, ?b, ?c]"]
    by (simp add: sortKeySuccess_def)
  moreover have "successRanking ''absolute'' [?a, ?b, ?c] = [?b, ?a, ?c]"
    by (simp add: successRanking_def js_sort_def sortKeySuccess_def)
  ultimately show ?thesis by simp
qed


subsection \<open>Grouping in an insertion-ordered map\<close>









lemma group_step_None: "kf s = None \<Longrightarrow> group_step kf e0 p s m = m"
  by (simp add: group_step_def)





lemma group_filter:
  "fold (group_step kf e0 p) (filter (\<lambda>s. kf s \<noteq> None) xs) m = fold (group_step kf e0 p) xs m"
proof (induction xs arbitrary: m)
  case Nil
  then show ?case by simp
next
  case (Cons x xs)
  show ?case
    using Cons.IH by (cases "kf x") (simp_all add: group_step_None)
qed



subsection \<open>The loop of processSessions\<close>


lemma cond_step_keys:
  "fold (cond_step pf s) condition_keys maps ''temp''
     = group_step (\<lambda>s. cond_value pf s ''temp'') new_cond is_success s (maps ''temp'')"
  "fold (cond_step pf s) condition_keys maps ''hum''
     = group_step (\<lambda>s. cond_value pf s ''hum'') new_cond is_success s (maps ''hum'')"
  "fold (cond_step pf s) condition_keys maps ''press''
     = group_step (\<lambda>s. cond_value pf s ''press'') new_cond is_success s (maps ''press'')"
  "fold (cond_step pf s) condition_keys maps ''wind''
     = group_step (\<lambda>s. cond_value pf s ''wind'') new_cond is_success s (maps ''wind'')"
  by (simp_all add: condition_keys_def cond_step_def group_step_def new_cond_def
      split: option.splits)

lemma cond_step_key:
  "key \<in> set condition_keys \<Longrightarrow>
     fold (cond_step pf s) condition_keys maps key
       = group_step (\<lambda>s. cond_value pf s key) new_cond is_success s (maps key)"
  using cond_step_keys [of pf s maps] by (auto simp: condition_keys_def)

lemma condMaps_fold:
  "key \<in> set condition_keys \<Longrightarrow>
     condMaps (fold (session_step pf) xs st) key
       = fold (group_step (\<lambda>s. cond_value pf s key) new_cond is_success) xs (condMaps st key)"
proof (induction xs arbitrary: st)
  case Nil
  then show ?case by simp
next
  case (Cons x xs)
  have "condMaps (session_step pf x st) key
      = group_step (\<lambda>s. cond_value pf s key) new_cond is_success x (condMaps st key)"
    by (simp add: session_step_def cond_step_key [OF Cons.prems])
  with Cons.IH [OF Cons.prems, of "session_step pf x st"] show ?case by simp
qed

lemma totals_fold:
  "totalSessions (fold (session_step pf) xs st) = totalSessions st + length xs"
  "totalSuccess (fold (session_step pf) xs st) = totalSuccess st + length (filter is_success xs)"
  "totalFail (fold (session_step pf) xs st)
     = totalFail st + length (filter (\<lambda>s. \<not> is_success s) xs)"
  by (induction xs arbitrary: st) (simp_all add: session_step_def)

lemma cond_value_eq: "cond_value pf s key = getConditionValue pf s key"
  by (simp add: cond_value_def getConditionValue_def)

lemma is_success_eq: "is_success s = isSuccessResult (result s)"
  by (simp add: is_success_def isSuccessResult_def)


lemma series_eq:
  "key \<in> set condition_keys \<Longrightarrow>
     currentConditionSeries key (conditionSeries (processSessions pf xs))
       = buildSeries (fold (group_step (\<lambda>s. cond_value pf s key) new_cond is_success) xs [])"
  by (auto simp: processSessions_def run_sessions_def condMaps_fold initial_state_def Let_def
      currentConditionSeries_def condition_keys_def buildSeries_def js_sort_def)




subsection \<open>The per-scent aggregation\<close>







subsection \<open>The per-condition series\<close>








subsection \<open>Absent condition values\<close>

lemma condition_values_present:
  "condition_values pf (filter (\<lambda>s. getConditionValue pf s key \<noteq> None) xs) key
     = condition_values pf xs key"
  by (induction xs) (simp_all add: condition_values_def)

lemma global_counts:
  "kpi_totalSessions (globalKpis (processSessions pf xs)) = length xs"
  "kpi_totalFails (globalKpis (processSessions pf xs))
     = length (filter (\<lambda>s. \<not> isSuccessResult (result s)) xs)"
  "kpi_successRate (globalKpis (processSessions pf xs))
     = rate_percent (length (filter (\<lambda>s. isSuccessResult (result s)) xs)) (length xs)"
  "totalSuccess (run_sessions pf xs) = length (filter (\<lambda>s. isSuccessResult (result s)) xs)"
  by (simp_all add: processSessions_def run_sessions_def totals_fold initial_state_def Let_def
      rate_percent_def is_success_eq [abs_def])

text \<open>
  C5. The extractor gives a value only for an entry that is a finite number, or a text
  that \<open>parseFloat\<close> reads as a finite number; for an entry that is absent, \<open>null\<close>,
  \<open>NaN\<close>, infinite, of another type, or a text that does not parse, it gives absent, never
  zero. A session whose value for a key is absent changes neither the series of that key
  on the statistics page nor the distributions of that key on the detail page, and every
  session is counted in the global number of sessions, of successes and of failures.
\<close>

theorem absent_condition_values:
  "(getConditionValue pf s key = Some q \<longleftrightarrow>
      condition_entry s key = JNum (Fin q)
      \<or> (\<exists>t. condition_entry s key = JStr t \<and> pf t = Fin q))
   \<and> (getConditionValue pf s key = None \<longleftrightarrow>
      \<not> (\<exists>r. condition_entry s key = JNum (Fin r)
              \<or> (\<exists>t. condition_entry s key = JStr t \<and> pf t = Fin r)))
   \<and> (key \<in> set condition_keys \<longrightarrow>
        currentConditionSeries key (conditionSeries (processSessions pf sessions))
          = currentConditionSeries key (conditionSeries (processSessions pf
              (filter (\<lambda>s. getConditionValue pf s key \<noteq> None) sessions))))
   \<and> buildConditionDistributions pf successSessions failSessions key binCount
        = buildConditionDistributions pf
            (filter (\<lambda>s. getConditionValue pf s key \<noteq> None) successSessions)
            (filter (\<lambda>s. getConditionValue pf s key \<noteq> None) failSessions) key binCount
   \<and> kpi_totalSessions (globalKpis (processSessions pf sessions)) = length sessions
   \<and> kpi_totalFails (globalKpis (processSessions pf sessions))
        = length (filter (\<lambda>s. \<not> isSuccessResult (result s)) sessions)
   \<and> kpi_successRate (globalKpis (processSessions pf sessions))
        = rate_percent (length (filter (\<lambda>s. isSuccessResult (result s)) sessions)) (length sessions)
   \<and> totalSuccess (run_sessions pf sessions)
        = length (filter (\<lambda>s. isSuccessResult (result s)) sessions)"
proof -
  have a: "getConditionValue pf s key = Some q \<longleftrightarrow>
      condition_entry s key = JNum (Fin q)
      \<or> (\<exists>t. condition_entry s key = JStr t \<and> pf t = Fin q)"
    by (auto simp: getConditionValue_def condition_entry_def Let_def
        split: option.splits jsval.splits jsnum.splits)
  have b: "getConditionValue pf s key = None \<longleftrightarrow>
      \<not> (\<exists>r. condition_entry s key = JNum (Fin r)
              \<or> (\<exists>t. condition_entry s key = JStr t \<and> pf t = Fin r))"
    by (auto simp: getConditionValue_def condition_entry_def Let_def
        split: option.splits jsval.splits jsnum.splits)
  have c: "currentConditionSeries key (conditionSeries (processSessions pf sessions))
          = currentConditionSeries key (conditionSeries (processSessions pf
              (filter (\<lambda>s. getConditionValue pf s key \<noteq> None) sessions)))"
    if key: "key \<in> set condition_keys"
    using group_filter [of "\<lambda>s. cond_value pf s key" new_cond is_success sessions "[]"]
    by (simp add: series_eq [OF key] cond_value_eq)
  have d: "buildConditionDistributions pf successSessions failSessions key binCount
        = buildConditionDistributions pf
            (filter (\<lambda>s. getConditionValue pf s key \<noteq> None) successSessions)
            (filter (\<lambda>s. getConditionValue pf s key \<noteq> None) failSessions) key binCount"
    by (simp only: buildConditionDistributions_def condition_values_present)
  from a b c d global_counts [of pf sessions] show ?thesis by blast
qed

theorem absent_condition_values_witness:
  "''temp'' \<in> set condition_keys
   \<and> getConditionValue (\<lambda>t. NaN)
        \<lparr>result = Some ''success'', dog_id = ''d1'', dogs = None,
         conditions = Some [''temp'' \<mapsto> JStr ''not-a-number''], type' = None\<rparr> ''temp'' = None
   \<and> currentConditionSeries ''temp'' (conditionSeries (processSessions (\<lambda>t. NaN)
        [\<lparr>result = Some ''success'', dog_id = ''d1'', dogs = None,
          conditions = Some [''temp'' \<mapsto> JStr ''not-a-number''], type' = None\<rparr>,
         \<lparr>result = Some ''fail'', dog_id = ''d1'', dogs = None,
          conditions = Some [''temp'' \<mapsto> JNum (Fin 20)], type' = None\<rparr>]))
     = currentConditionSeries ''temp'' (conditionSeries (processSessions (\<lambda>t. NaN)
        [\<lparr>result = Some ''fail'', dog_id = ''d1'', dogs = None,
          conditions = Some [''temp'' \<mapsto> JNum (Fin 20)], type' = None\<rparr>]))
   \<and> kpi_totalSessions (globalKpis (processSessions (\<lambda>t. NaN)
        [\<lparr>result = Some ''success'', dog_id = ''d1'', dogs = None,
          conditions = Some [''temp'' \<mapsto> JStr ''not-a-number''], type' = None\<rparr>,
         \<lparr>result = Some ''fail'', dog_id = ''d1'', dogs = None,
          conditions = Some [''temp'' \<mapsto> JNum (Fin 20)], type' = None\<rparr>])) = 2"
proof -
  let ?s1 = "\<lparr>result = Some ''success'', dog_id = ''d1'', dogs = None,
          conditions = Some [''temp'' \<mapsto> JStr ''not-a-number''], type' = None\<rparr>"
  let ?s2 = "\<lparr>result = Some ''fail'', dog_id = ''d1'', dogs = None,
          conditions = Some [''temp'' \<mapsto> JNum (Fin 20)], type' = None\<rparr>"
  have key: "''temp'' \<in> set condition_keys" by (simp add: condition_keys_def)
  have n1: "getConditionValue (\<lambda>t. NaN) ?s1 ''temp'' = None"
    and n2: "getConditionValue (\<lambda>t. NaN) ?s2 ''temp'' = Some 20"
    by (simp_all add: getConditionValue_def)
  from key n1 n2 absent_condition_values [of "\<lambda>t. NaN" ?s1 "''temp''" 0 "[?s1, ?s2]" "[]" "[]" 6]
  show ?thesis by simp
qed


subsection \<open>The histogram binner\<close>































end
